theory Spec2Isabelle
  imports Complex_Main
begin

section \<open>Python values, dictionaries and errors\<close>

text \<open>
  The values that occur in the dictionaries of \<^verbatim>\<open>server.py\<close>: what \<^verbatim>\<open>json.loads\<close>
  returns (\<^verbatim>\<open>None\<close>, booleans, integers, floats, strings, lists and dictionaries, nested
  to any depth) and \<^verbatim>\<open>datetime\<close> objects (a point in time is a natural number). A
  dictionary is an association list.
\<close>

datatype pyval =
    PNone
  | PBool bool
  | PInt int
  | PFloat real
  | PStr string
  | PDatetime nat
  | PList "pyval list"
  | PDict "(string \<times> pyval) list"

type_synonym pydict = "(string \<times> pyval) list"

text \<open>\<^verbatim>\<open>d.get(key)\<close>: \<^verbatim>\<open>None\<close> when the key is missing.\<close>

definition get :: "pydict \<Rightarrow> string \<Rightarrow> pyval" where
  "get d key = (case map_of d key of None \<Rightarrow> PNone | Some v \<Rightarrow> v)"

text \<open>Python's truth value of an object, as tested by \<^verbatim>\<open>if x:\<close>.\<close>

fun truthy :: "pyval \<Rightarrow> bool" where
  "truthy PNone = False"
| "truthy (PBool b) = b"
| "truthy (PInt n) = (n \<noteq> 0)"
| "truthy (PFloat x) = (x \<noteq> 0)"
| "truthy (PStr s) = (s \<noteq> [])"
| "truthy (PDatetime t) = True"
| "truthy (PList vs) = (vs \<noteq> [])"
| "truthy (PDict kvs) = (kvs \<noteq> [])"

text \<open>The truth value of an \<^verbatim>\<open>Optional[str]\<close> field: \<^verbatim>\<open>None\<close> and \<^verbatim>\<open>""\<close> are false.\<close>

fun truthy_id :: "string option \<Rightarrow> bool" where
  "truthy_id None = False"
| "truthy_id (Some s) = (s \<noteq> [])"

text \<open>
  The exceptions: those that \<^verbatim>\<open>server.py\<close> raises or that the library calls it makes
  raise on its inputs, and those that a send on a channel or a query of the store can
  raise.
\<close>

datatype error =
    HTTPException nat string
  | TypeError
  | JSONDecodeError
  | AttributeError
  | WebSocketDisconnect
  | RuntimeError
  | OperationFailure
  | OverflowError

text \<open>
  A \<^verbatim>\<open>str\<close> sent over a channel: either given as it is, or the serialisation of a
  dictionary, which stands for its JSON text. \<^verbatim>\<open>json.dumps\<close> raises \<^verbatim>\<open>TypeError\<close> on a
  dictionary that holds a \<^verbatim>\<open>datetime\<close> at any depth.
\<close>

datatype payload = Raw string | Json pydict

fun has_datetime :: "pyval \<Rightarrow> bool" where
  "has_datetime (PDatetime t) = True"
| "has_datetime (PList vs) = list_ex has_datetime vs"
| "has_datetime (PDict kvs) = list_ex (\<lambda>(k, v). has_datetime v) kvs"
| "has_datetime v = False"

definition json_dumps :: "pydict \<Rightarrow> error + payload" where
  "json_dumps d = (if has_datetime (PDict d) then Inl TypeError else Inr (Json d))"

section \<open>Models (lines 71-100)\<close>

record User =
  user_id :: string
  name :: string
  role :: string
  user_session_id :: "string option"
  user_created_at :: nat

record InterviewSession =
  session_id :: string
  candidate_id :: "string option"
  hr_id :: "string option"
  status :: string
  sign_language :: string
  created_at :: nat
  messages :: "pydict list"

record Message =
  msg_session_id :: string
  sender_id :: string
  sender_role :: string
  message_type :: string
  content :: string
  timestamp :: nat

text \<open>\<^verbatim>\<open>message.dict()\<close>\<close>

definition Message_dict :: "Message \<Rightarrow> pydict" where
  "Message_dict m =
     [(''session_id'', PStr (msg_session_id m)),
      (''sender_id'', PStr (sender_id m)),
      (''sender_role'', PStr (sender_role m)),
      (''message_type'', PStr (message_type m)),
      (''content'', PStr (content m)),
      (''timestamp'', PDatetime (timestamp m))]"

section \<open>The process state\<close>

text \<open>
  A \<^verbatim>\<open>WebSocket\<close> object is a handle; its \<^verbatim>\<open>client_state\<close> is read through the handle,
  so the registry and a running endpoint may hold the same channel. The state of the
  process is the two collections of the database that the session operations use, the
  registry of the \<^verbatim>\<open>ConnectionManager\<close>, the state of every channel, and the log of the
  texts sent so far, each with the channel it was sent on.

  Two parts of the state belong to the libraries and are never changed by the code.
  \<open>send_raises\<close> tells what \<^verbatim>\<open>send_text\<close> on a channel does: it delivers the text, or it
  raises an exception, as it does on a channel whose connection is gone; which exception
  depends on the library version. The flag \<^verbatim>\<open>client_state\<close> is independent of it: the
  library updates the flag in \<^verbatim>\<open>receive\<close> only, so a dead channel can still read
  \<^verbatim>\<open>CONNECTED\<close>. \<open>foreign_query\<close> tells what the store answers to the filter
  \<^verbatim>\<open>{"session_id": v}\<close> for a value \<open>v\<close> that is not a string, such as an operator
  document: it raises an exception, or it decides for each stored identity whether the
  document matches.
\<close>

datatype WebSocketState = CONNECTING | CONNECTED | DISCONNECTED | RESPONSE

type_synonym websocket = nat

record world =
  interview_sessions :: "InterviewSession list"
  users :: "User list"
  active_connections :: "string \<rightharpoonup> websocket"
  client_state :: "websocket \<Rightarrow> WebSocketState"
  sent :: "(websocket \<times> payload) list"
  send_raises :: "websocket \<Rightarrow> error option"
  foreign_query :: "pyval \<Rightarrow> error + (string \<Rightarrow> bool)"

text \<open>\<^verbatim>\<open>await websocket.send_text(data)\<close>\<close>

definition send_text :: "world \<Rightarrow> websocket \<Rightarrow> payload \<Rightarrow> (error + unit) \<times> world" where
  "send_text w websocket data =
     (case send_raises w websocket of
        None \<Rightarrow> (Inr (), w\<lparr>sent := sent w @ [(websocket, data)]\<rparr>)
      | Some e \<Rightarrow> (Inl e, w))"

section \<open>ConnectionManager (lines 32-58)\<close>

text \<open>\<^verbatim>\<open>connect\<close>: \<^verbatim>\<open>accept()\<close> completes the handshake, then the entry is overwritten.\<close>

definition connect :: "world \<Rightarrow> websocket \<Rightarrow> string \<Rightarrow> world" where
  "connect w websocket uid =
     w\<lparr>client_state := (client_state w)(websocket := CONNECTED),
       active_connections := (active_connections w)(uid \<mapsto> websocket)\<rparr>"

definition disconnect :: "world \<Rightarrow> string \<Rightarrow> world" where
  "disconnect w uid =
     (if active_connections w uid \<noteq> None
      then w\<lparr>active_connections := (active_connections w)(uid := None)\<rparr>
      else w)"

definition send_personal_message :: "world \<Rightarrow> payload \<Rightarrow> string \<Rightarrow> (error + unit) \<times> world" where
  "send_personal_message w message uid =
     (case active_connections w uid of
        None \<Rightarrow> (Inr (), w)
      | Some websocket \<Rightarrow>
          if client_state w websocket = CONNECTED then send_text w websocket message
          else (Inr (), w))"

text \<open>
  The loop of \<^verbatim>\<open>send_to_session\<close> over
  \<^verbatim>\<open>[session.get("candidate_id"), session.get("hr_id")]\<close>. An exception of
  \<^verbatim>\<open>json.dumps\<close> or of \<^verbatim>\<open>send_text\<close> ends it: the loop has no handler.
\<close>

fun send_participants :: "world \<Rightarrow> pydict \<Rightarrow> string option list \<Rightarrow> (error + unit) \<times> world" where
  "send_participants w message [] = (Inr (), w)"
| "send_participants w message (participant_id # rest) =
     (if truthy_id participant_id \<and> active_connections w (the participant_id) \<noteq> None
      then (let websocket = the (active_connections w (the participant_id))
            in if client_state w websocket = CONNECTED
               then (case json_dumps message of
                       Inl e \<Rightarrow> (Inl e, w)
                     | Inr data \<Rightarrow>
                         (case send_text w websocket data of
                            (Inl e, w') \<Rightarrow> (Inl e, w')
                          | (Inr u, w') \<Rightarrow> send_participants w' message rest))
               else send_participants w message rest)
      else send_participants w message rest)"

section \<open>The document store\<close>

text \<open>
  A collection is the list of its documents in insertion order. \<^verbatim>\<open>find_one\<close> returns
  the first document that matches the filter, \<^verbatim>\<open>update_one\<close> changes the first document
  that matches and nothing when none does, \<^verbatim>\<open>insert_one\<close> adds a document at the end.
\<close>

fun find_one :: "'a list \<Rightarrow> ('a \<Rightarrow> bool) \<Rightarrow> 'a option" where
  "find_one [] p = None"
| "find_one (x # xs) p = (if p x then Some x else find_one xs p)"

fun update_one :: "'a list \<Rightarrow> ('a \<Rightarrow> bool) \<Rightarrow> ('a \<Rightarrow> 'a) \<Rightarrow> 'a list" where
  "update_one [] p f = []"
| "update_one (x # xs) p f = (if p x then f x # xs else x # update_one xs p f)"

definition insert_one :: "'a list \<Rightarrow> 'a \<Rightarrow> 'a list" where
  "insert_one xs x = xs @ [x]"

text \<open>
  The filter \<^verbatim>\<open>{"session_id": v}\<close> for a string \<open>v\<close>: equality with the stored identity.
\<close>

definition by_session_id :: "pyval \<Rightarrow> InterviewSession \<Rightarrow> bool" where
  "by_session_id v s = (v = PStr (session_id s))"

text \<open>The filter \<^verbatim>\<open>{"user_id": user_id}\<close>.\<close>

definition by_user_id :: "string \<Rightarrow> User \<Rightarrow> bool" where
  "by_user_id uid u = (user_id u = uid)"

text \<open>
  \<^verbatim>\<open>{"$set": update_data}\<close> on a session document; \<^verbatim>\<open>join_session\<close> sets no other
  key than these three. An empty \<^verbatim>\<open>update_data\<close> leaves the document as it is (a
  server that rejects an empty \<^verbatim>\<open>$set\<close> leaves it so as well).
\<close>

fun set_field :: "string \<times> string \<Rightarrow> InterviewSession \<Rightarrow> InterviewSession" where
  "set_field (key, v) s =
     (if key = ''candidate_id'' then s\<lparr>candidate_id := Some v\<rparr>
      else if key = ''hr_id'' then s\<lparr>hr_id := Some v\<rparr>
      else if key = ''status'' then s\<lparr>status := v\<rparr>
      else s)"

definition set_fields :: "(string \<times> string) list \<Rightarrow> InterviewSession \<Rightarrow> InterviewSession" where
  "set_fields update_data s = fold set_field update_data s"

text \<open>\<^verbatim>\<open>{"$push": {"messages": message_dict}}\<close>\<close>

definition push_message :: "pydict \<Rightarrow> InterviewSession \<Rightarrow> InterviewSession" where
  "push_message message_dict s = s\<lparr>messages := messages s @ [message_dict]\<rparr>"

section \<open>ConnectionManager.send_to_session (lines 50-58)\<close>

text \<open>
  \<^verbatim>\<open>db.interview_sessions.find_one({"session_id": v})\<close> for any value \<open>v\<close>. The HTTP
  endpoints pass the string of the path; the live channel passes whatever the envelope
  holds under \<^verbatim>\<open>session_id\<close>.
\<close>

definition find_session :: "world \<Rightarrow> pyval \<Rightarrow> error + InterviewSession option" where
  "find_session w v =
     (case v of
        PStr s \<Rightarrow> Inr (find_one (interview_sessions w) (by_session_id (PStr s)))
      | _ \<Rightarrow>
          (case foreign_query w v of
             Inl e \<Rightarrow> Inl e
           | Inr matches \<Rightarrow> Inr (find_one (interview_sessions w) (\<lambda>s. matches (session_id s)))))"

definition send_to_session :: "world \<Rightarrow> pydict \<Rightarrow> pyval \<Rightarrow> (error + unit) \<times> world" where
  "send_to_session w message sid =
     (case find_session w sid of
        Inl e \<Rightarrow> (Inl e, w)
      | Inr None \<Rightarrow> (Inr (), w)
      | Inr (Some session) \<Rightarrow>
          send_participants w message [candidate_id session, hr_id session])"

text \<open>
  The session router of the specification, in its words: the non-null participant
  identities of the session, in the order candidate, interviewer, and none when no
  session is found. The code has no such function; \<^const>\<open>send_to_session\<close> iterates
  over the two fields and skips an identity whose truth value is false.
\<close>

definition participants_of :: "world \<Rightarrow> pyval \<Rightarrow> string list" where
  "participants_of w sid =
     (case find_session w sid of
        Inr (Some session) \<Rightarrow>
          map the (filter (\<lambda>p. p \<noteq> None) [candidate_id session, hr_id session])
      | _ \<Rightarrow> [])"



section \<open>Session endpoints (lines 135-193)\<close>

text \<open>
  \<^verbatim>\<open>create_session\<close>: the generated \<^verbatim>\<open>uuid4\<close> and the clock reading are arguments.
\<close>

definition create_session :: "world \<Rightarrow> string \<Rightarrow> string \<Rightarrow> nat \<Rightarrow> InterviewSession \<times> world" where
  "create_session w new_uuid language now =
     (let session_obj = \<lparr>session_id = new_uuid, candidate_id = None, hr_id = None,
            status = ''waiting'', sign_language = language, created_at = now, messages = []\<rparr>
      in (session_obj, w\<lparr>interview_sessions := insert_one (interview_sessions w) session_obj\<rparr>))"

definition get_session :: "world \<Rightarrow> string \<Rightarrow> error + InterviewSession" where
  "get_session w sid =
     (case find_one (interview_sessions w) (by_session_id (PStr sid)) of
        None \<Rightarrow> Inl (HTTPException 404 ''Session not found'')
      | Some session \<Rightarrow> Inr session)"

definition join_session :: "world \<Rightarrow> string \<Rightarrow> string \<Rightarrow> string \<Rightarrow> (error + string \<times> string) \<times> world" where
  "join_session w sid uid rl =
     (case find_one (interview_sessions w) (by_session_id (PStr sid)) of
        None \<Rightarrow> (Inl (HTTPException 404 ''Session not found''), w)
      | Some session \<Rightarrow>
          (let update_data =
                 (if rl = ''candidate'' then [(''candidate_id'', uid)]
                  else if rl = ''hr'' then [(''hr_id'', uid)]
                  else []);
               update_data =
                 (if rl = ''candidate'' \<and> truthy_id (hr_id session)
                  then update_data @ [(''status'', ''active'')]
                  else if rl = ''hr'' \<and> truthy_id (candidate_id session)
                  then update_data @ [(''status'', ''active'')]
                  else update_data);
               w1 = w\<lparr>interview_sessions :=
                      update_one (interview_sessions w) (by_session_id (PStr sid))
                        (set_fields update_data)\<rparr>;
               w2 = w1\<lparr>users :=
                      update_one (users w1) (by_user_id uid)
                        (\<lambda>u. u\<lparr>user_session_id := Some sid\<rparr>)\<rparr>
           in (Inr (''Joined session successfully'',
                    (case map_of update_data ''status'' of
                       None \<Rightarrow> ''waiting''
                     | Some st \<Rightarrow> st)), w2)))"

text \<open>
  \<^verbatim>\<open>send_message\<close>: the message is stored first; an exception of the fan-out leaves
  it stored.
\<close>

definition send_message :: "world \<Rightarrow> string \<Rightarrow> Message \<Rightarrow> (error + string) \<times> world" where
  "send_message w sid message =
     (let message_dict = Message_dict message;
          w1 = w\<lparr>interview_sessions :=
                 update_one (interview_sessions w) (by_session_id (PStr sid))
                   (push_message message_dict)\<rparr>
      in (case send_to_session w1 message_dict (PStr sid) of
            (Inl e, w2) \<Rightarrow> (Inl e, w2)
          | (Inr u, w2) \<Rightarrow> (Inr ''Message sent successfully'', w2)))"

section \<open>The live channel (lines 196-214)\<close>

text \<open>
  What one turn of the loop receives: the peer has disconnected and \<^verbatim>\<open>receive_text\<close>
  raises \<^verbatim>\<open>WebSocketDisconnect\<close>, or \<^verbatim>\<open>receive_text\<close> returns a text, given by what
  \<^verbatim>\<open>json.loads\<close> makes of it: it raises \<^verbatim>\<open>JSONDecodeError\<close> on a text that is not JSON,
  it returns a value that is not a dictionary (on which \<^verbatim>\<open>.get\<close> raises
  \<^verbatim>\<open>AttributeError\<close>), or it returns a dictionary.
\<close>

datatype inbound = Disconnect | NotJson | NotObject | Envelope pydict

text \<open>
  Where the endpoint stands after a turn: back at \<^verbatim>\<open>receive_text\<close>, returned through
  the \<^verbatim>\<open>except\<close> clause, or left by an exception that no clause catches.
\<close>

datatype endpoint = Receiving | Returned | Raised error

text \<open>
  An exception inside the \<^verbatim>\<open>try\<close> block, whichever statement raised it:
  \<^verbatim>\<open>except WebSocketDisconnect\<close> unregisters the identity of the endpoint and the endpoint
  returns; any other exception leaves the endpoint.
\<close>

definition leave :: "world \<Rightarrow> string \<Rightarrow> error \<Rightarrow> endpoint \<times> world" where
  "leave w uid e =
     (if e = WebSocketDisconnect then (Returned, disconnect w uid) else (Raised e, w))"

definition receive_one :: "world \<Rightarrow> websocket \<Rightarrow> string \<Rightarrow> inbound \<Rightarrow> endpoint \<times> world" where
  "receive_one w websocket uid ev =
     (case ev of
        Disconnect \<Rightarrow> leave w uid WebSocketDisconnect
      | NotJson \<Rightarrow> leave w uid JSONDecodeError
      | NotObject \<Rightarrow> leave w uid AttributeError
      | Envelope message_data \<Rightarrow>
          if get message_data ''type'' = PStr ''ping''
          then (case json_dumps [(''type'', PStr ''pong'')] of
                  Inl e \<Rightarrow> leave w uid e
                | Inr data \<Rightarrow>
                    (case send_text w websocket data of
                       (Inl e, w') \<Rightarrow> leave w' uid e
                     | (Inr u, w') \<Rightarrow> (Receiving, w')))
          else if get message_data ''type'' = PStr ''message''
          then (let sid = get message_data ''session_id''
                in if truthy sid
                   then (case send_to_session w message_data sid of
                           (Inl e, w') \<Rightarrow> leave w' uid e
                         | (Inr u, w') \<Rightarrow> (Receiving, w'))
                   else (Receiving, w))
          else (Receiving, w))"

fun receive_loop :: "world \<Rightarrow> websocket \<Rightarrow> string \<Rightarrow> inbound list \<Rightarrow> endpoint \<times> world" where
  "receive_loop w websocket uid [] = (Receiving, w)"
| "receive_loop w websocket uid (ev # evs) =
     (case receive_one w websocket uid ev of
        (Receiving, w') \<Rightarrow> receive_loop w' websocket uid evs
      | (Returned, w') \<Rightarrow> (Returned, w')
      | (Raised e, w') \<Rightarrow> (Raised e, w'))"

definition websocket_endpoint :: "world \<Rightarrow> websocket \<Rightarrow> string \<Rightarrow> inbound list \<Rightarrow> endpoint \<times> world" where
  "websocket_endpoint w websocket uid evs = receive_loop (connect w websocket uid) websocket uid evs"

section \<open>Sequences of requests\<close>

text \<open>
  The requests that change the session collection, and a client that issues them one
  after the other; the response of each request is dropped, its effect is kept.
\<close>

datatype request =
    CreateSession string string nat
  | JoinSession string string string
  | SendMessage string Message

fun serve :: "world \<Rightarrow> request \<Rightarrow> world" where
  "serve w (CreateSession new_uuid language now) = snd (create_session w new_uuid language now)"
| "serve w (JoinSession sid uid rl) = snd (join_session w sid uid rl)"
| "serve w (SendMessage sid message) = snd (send_message w sid message)"

definition serve_all :: "world \<Rightarrow> request list \<Rightarrow> world" where
  "serve_all w reqs = foldl serve w reqs"

text \<open>The messages that a sequence of requests posts to one session, in order.\<close>

fun posted :: "string \<Rightarrow> request list \<Rightarrow> Message list" where
  "posted sid [] = []"
| "posted sid (SendMessage sid' message # reqs) =
     (if sid' = sid then message # posted sid reqs else posted sid reqs)"
| "posted sid (r # reqs) = posted sid reqs"

text \<open>The identities that the join requests of a sequence carry.\<close>

fun join_ids :: "request list \<Rightarrow> string list" where
  "join_ids [] = []"
| "join_ids (JoinSession sid uid rl # reqs) = uid # join_ids reqs"
| "join_ids (r # reqs) = join_ids reqs"

text \<open>
  The invariant of a session document. With \<open>strict\<close>, no participant identity is the
  empty string.
\<close>

definition session_ok :: "bool \<Rightarrow> InterviewSession \<Rightarrow> bool" where
  "session_ok strict s =
     ((status s = ''active'' \<or> status s = ''waiting'')
      \<and> (status s = ''active'' \<longrightarrow> candidate_id s \<noteq> None \<and> hr_id s \<noteq> None)
      \<and> (truthy_id (candidate_id s) \<and> truthy_id (hr_id s) \<longrightarrow> status s = ''active'')
      \<and> (strict \<longrightarrow> candidate_id s \<noteq> Some [] \<and> hr_id s \<noteq> Some []))"

text \<open>
  A state with an empty database and no channel, in which every send is delivered and
  the store matches no document to a filter value that is not a string.
\<close>

definition world0 :: world where
  "world0 = \<lparr>interview_sessions = [], users = [], active_connections = Map.empty,
             client_state = (\<lambda>c. CONNECTING), sent = [],
             send_raises = (\<lambda>c. None), foreign_query = (\<lambda>v. Inr (\<lambda>s. False))\<rparr>"

text \<open>
  What a reader sees of a stored message, and what the sender gave: content, sender
  identity and message type.
\<close>

definition message_fields :: "pydict \<Rightarrow> pyval \<times> pyval \<times> pyval" where
  "message_fields d = (get d ''content'', get d ''sender_id'', get d ''message_type'')"

definition sent_fields :: "Message \<Rightarrow> pyval \<times> pyval \<times> pyval" where
  "sent_fields m = (PStr (content m), PStr (sender_id m), PStr (message_type m))"

text \<open>Two messages.\<close>

definition message1 :: Message where
  "message1 = \<lparr>msg_session_id = ''s1'', sender_id = ''c'', sender_role = ''candidate'',
                message_type = ''sign_to_text'', content = ''hello'', timestamp = 5\<rparr>"

definition message2 :: Message where
  "message2 = \<lparr>msg_session_id = ''s1'', sender_id = ''h'', sender_role = ''hr'',
                message_type = ''text_to_sign'', content = ''welcome'', timestamp = 6\<rparr>"

text \<open>
  A state with an active session whose candidate has an open channel and whose
  interviewer has a closed one, an envelope addressed to that session, and the same
  state with the candidate unregistered. In the last state both participants are
  registered with channels that read \<^verbatim>\<open>CONNECTED\<close>, but the connection of the
  candidate is gone (its endpoint ended without unregistering) and a send on it
  raises \<^verbatim>\<open>WebSocketDisconnect\<close>.
\<close>

definition world1 :: world where
  "world1 = \<lparr>interview_sessions =
                [\<lparr>session_id = ''s1'', candidate_id = Some ''c'', hr_id = Some ''h'',
                  status = ''active'', sign_language = ''ASL'', created_at = 0, messages = []\<rparr>],
              users = [],
              active_connections = [''c'' \<mapsto> 1, ''h'' \<mapsto> 2],
              client_state = (\<lambda>c. if c = 2 then DISCONNECTED else CONNECTED),
              sent = [],
              send_raises = (\<lambda>c. None), foreign_query = (\<lambda>v. Inr (\<lambda>s. False))\<rparr>"

definition envelope1 :: pydict where
  "envelope1 = [(''type'', PStr ''message''), (''session_id'', PStr ''s1''), (''content'', PStr ''hi'')]"

definition world2 :: world where
  "world2 = world1\<lparr>active_connections := [''h'' \<mapsto> 2]\<rparr>"

definition world3 :: world where
  "world3 = world1\<lparr>client_state := (\<lambda>c. CONNECTED),
                    send_raises := (\<lambda>c. if c = 1 then Some WebSocketDisconnect else None)\<rparr>"



section \<open>Facts about the store and the fan-out\<close>

lemma find_one_Some: "find_one xs p = Some x \<Longrightarrow> x \<in> set xs \<and> p x"
  by (induction xs) (auto split: if_splits)

lemma find_one_append:
  "find_one (xs @ ys) p = (case find_one xs p of None \<Rightarrow> find_one ys p | Some x \<Rightarrow> Some x)"
  by (induction xs) auto

lemma update_one_no_match: "find_one xs p = None \<Longrightarrow> update_one xs p f = xs"
  by (induction xs) (auto split: if_splits)

lemma set_update_one:
  "find_one xs p = Some x \<Longrightarrow> set (update_one xs p f) \<subseteq> insert (f x) (set xs)"
  by (induction xs) (auto split: if_splits)

lemma find_one_update_same:
  "(\<And>x. p x \<Longrightarrow> p (f x)) \<Longrightarrow> find_one (update_one xs p f) p = map_option f (find_one xs p)"
  by (induction xs) auto

lemma find_one_update_other:
  "(\<And>x. p x \<Longrightarrow> \<not> q x \<and> \<not> q (f x)) \<Longrightarrow> find_one (update_one xs p f) q = find_one xs q"
  by (induction xs) auto

lemma set_field_keeps: "session_id (set_field kv s) = session_id s" "messages (set_field kv s) = messages s"
  by (cases kv; simp)+

lemma set_fields_keeps: "session_id (set_fields ud s) = session_id s \<and> messages (set_fields ud s) = messages s"
  unfolding set_fields_def by (induction ud arbitrary: s) (simp_all add: set_field_keeps del: set_field.simps)

lemma send_text_fields:
  "interview_sessions (snd (send_text w c d)) = interview_sessions w"
  "active_connections (snd (send_text w c d)) = active_connections w"
  "client_state (snd (send_text w c d)) = client_state w"
  "users (snd (send_text w c d)) = users w"
  "send_raises (snd (send_text w c d)) = send_raises w"
  "foreign_query (snd (send_text w c d)) = foreign_query w"
  by (simp_all add: send_text_def split: option.splits)

lemma send_text_keeps:
  "send_text w c d = (r, w') \<Longrightarrow>
     interview_sessions w' = interview_sessions w \<and> active_connections w' = active_connections w
     \<and> client_state w' = client_state w \<and> send_raises w' = send_raises w
     \<and> foreign_query w' = foreign_query w"
  by (auto simp: send_text_def split: option.splits)

lemma send_participants_db:
  "interview_sessions (snd (send_participants w m ps)) = interview_sessions w"
proof (induction ps arbitrary: w)
  case Nil
  then show ?case by simp
next
  case (Cons p ps)
  show ?case
    by (auto simp: Let_def Cons.IH dest: send_text_keeps split: sum.splits prod.splits)
qed

lemma send_to_session_db:
  "interview_sessions (snd (send_to_session w m q)) = interview_sessions w"
  by (simp add: send_to_session_def send_participants_db del: send_participants.simps
        split: option.splits sum.splits)

lemma send_message_db:
  "interview_sessions (snd (send_message w sid m)) =
     update_one (interview_sessions w) (by_session_id (PStr sid)) (push_message (Message_dict m))"
proof -
  let ?w1 = "w\<lparr>interview_sessions := update_one (interview_sessions w) (by_session_id (PStr sid)) (push_message (Message_dict m))\<rparr>"
  have "snd (send_message w sid m) = snd (send_to_session ?w1 (Message_dict m) (PStr sid))"
    by (simp add: send_message_def Let_def split: prod.splits sum.splits)
  then show ?thesis by (simp add: send_to_session_db)
qed

lemma join_session_db:
  "interview_sessions (snd (join_session w sid uid rl)) =
     (case find_one (interview_sessions w) (by_session_id (PStr sid)) of
        None \<Rightarrow> interview_sessions w
      | Some session \<Rightarrow>
          update_one (interview_sessions w) (by_session_id (PStr sid))
            (set_fields
              ((if rl = ''candidate'' then [(''candidate_id'', uid)]
                else if rl = ''hr'' then [(''hr_id'', uid)] else [])
               @ (if rl = ''candidate'' \<and> truthy_id (hr_id session) \<or> rl = ''hr'' \<and> truthy_id (candidate_id session)
                  then [(''status'', ''active'')] else []))))"
  by (simp add: join_session_def Let_def split: option.splits)

section \<open>The connection registry\<close>

text \<open>
  C9. Unregistering an identity twice leaves the registry, and the whole state, as
  unregistering it once does; unregistering an identity that has no entry changes
  nothing and signals nothing (\<^const>\<open>disconnect\<close> has no error result).
\<close>

theorem disconnect_idempotent:
  "disconnect (disconnect w uid) uid = disconnect w uid
   \<and> active_connections (disconnect w uid) uid = None
   \<and> (active_connections w uid = None \<longrightarrow> disconnect w uid = w)"
  by (simp add: disconnect_def)

theorem disconnect_idempotent_witness:
  "disconnect (disconnect world1 ''c'') ''c'' = disconnect world1 ''c''
   \<and> active_connections world1 ''c'' = Some 1
   \<and> active_connections (disconnect world1 ''c'') ''c'' = None
   \<and> active_connections world1 ''nobody'' = None
   \<and> disconnect world1 ''nobody'' = world1"
proof -
  have present: "active_connections world1 ''c'' = Some 1" by (simp add: world1_def)
  have absent: "active_connections world1 ''nobody'' = None" by (simp add: world1_def)
  from disconnect_idempotent [of world1 "''c''"] disconnect_idempotent [of world1 "''nobody''"]
    present absent
  show ?thesis by blast
qed

section \<open>The session lifecycle\<close>

lemma session_ok_join:
  assumes "session_ok strict s" and "strict \<longrightarrow> uid \<noteq> []"
  shows "session_ok strict (set_fields
              ((if rl = ''candidate'' then [(''candidate_id'', uid)]
                else if rl = ''hr'' then [(''hr_id'', uid)] else [])
               @ (if rl = ''candidate'' \<and> truthy_id (hr_id s) \<or> rl = ''hr'' \<and> truthy_id (candidate_id s)
                  then [(''status'', ''active'')] else [])) s)"
proof -
  consider (c) "rl = ''candidate''" | (h) "rl = ''hr''" | (o) "rl \<noteq> ''candidate''" "rl \<noteq> ''hr''"
    by blast
  then show ?thesis
  proof cases
    case c
    with assms show ?thesis
      by (cases "hr_id s") (auto simp: session_ok_def set_fields_def)
  next
    case h
    with assms show ?thesis
      by (cases "candidate_id s") (auto simp: session_ok_def set_fields_def)
  next
    case o
    with assms show ?thesis by (simp add: set_fields_def)
  qed
qed

lemma session_ok_push: "session_ok strict s \<Longrightarrow> session_ok strict (push_message d s)"
  by (simp add: session_ok_def push_message_def)

lemma serve_ok:
  assumes all: "\<forall>s \<in> set (interview_sessions w). session_ok strict s"
    and ids: "strict \<longrightarrow> [] \<notin> set (join_ids [r])"
  shows "\<forall>s \<in> set (interview_sessions (serve w r)). session_ok strict s"
proof (cases r)
  case (CreateSession new_uuid language now)
  with all show ?thesis
    by (auto simp: create_session_def insert_one_def session_ok_def Let_def)
next
  case (JoinSession sid uid rl)
  show ?thesis
  proof (cases "find_one (interview_sessions w) (by_session_id (PStr sid))")
    case None
    with all JoinSession show ?thesis by (simp add: join_session_db)
  next
    case (Some session)
    then have "session_ok strict session" using all find_one_Some by fastforce
    moreover have "strict \<longrightarrow> uid \<noteq> []" using ids JoinSession by auto
    ultimately have new: "session_ok strict (set_fields
              ((if rl = ''candidate'' then [(''candidate_id'', uid)]
                else if rl = ''hr'' then [(''hr_id'', uid)] else [])
               @ (if rl = ''candidate'' \<and> truthy_id (hr_id session) \<or> rl = ''hr'' \<and> truthy_id (candidate_id session)
                  then [(''status'', ''active'')] else [])) session)"
      by (rule session_ok_join)
    show ?thesis
      using set_update_one [OF Some] all new
      unfolding JoinSession serve.simps join_session_db Some option.case
      by blast
  qed
next
  case (SendMessage sid message)
  show ?thesis
  proof (cases "find_one (interview_sessions w) (by_session_id (PStr sid))")
    case None
    with all SendMessage show ?thesis by (simp add: send_message_db update_one_no_match)
  next
    case (Some session)
    then have "session_ok strict session" using all find_one_Some by fastforce
    then have new: "session_ok strict (push_message (Message_dict message) session)"
      by (rule session_ok_push)
    show ?thesis
      using set_update_one [OF Some] all new
      unfolding SendMessage serve.simps send_message_db
      by blast
  qed
qed

lemma serve_all_ok:
  "\<forall>s \<in> set (interview_sessions w). session_ok strict s \<Longrightarrow> (strict \<longrightarrow> [] \<notin> set (join_ids reqs))
   \<Longrightarrow> \<forall>s \<in> set (interview_sessions (serve_all w reqs)). session_ok strict s"
proof (induction reqs arbitrary: w)
  case Nil
  then show ?case by (simp add: serve_all_def)
next
  case (Cons r reqs)
  have "strict \<longrightarrow> [] \<notin> set (join_ids [r])" using Cons.prems(2) by (cases r) auto
  with Cons.prems(1) have "\<forall>s \<in> set (interview_sessions (serve w r)). session_ok strict s"
    by (rule serve_ok)
  moreover have "strict \<longrightarrow> [] \<notin> set (join_ids reqs)" using Cons.prems(2) by (cases r) auto
  ultimately have "\<forall>s \<in> set (interview_sessions (serve_all (serve w r) reqs)). session_ok strict s"
    by (rule Cons.IH)
  then show ?case by (simp add: serve_all_def)
qed

text \<open>
  C1, as the code has it. In every state reached from an empty session collection by
  creating sessions, joining and posting messages, a session that is read has status
  \<^verbatim>\<open>active\<close> or \<^verbatim>\<open>waiting\<close>, never \<^verbatim>\<open>completed\<close>; an active session has both
  participant identities; and when no join carried the empty string as identity, the
  status is \<^verbatim>\<open>active\<close> exactly when both identities are non-null.
\<close>

theorem session_status_invariant:
  assumes "interview_sessions w = []"
    and "get_session (serve_all w reqs) sid = Inr s"
  shows "(status s = ''active'' \<or> status s = ''waiting'') \<and> status s \<noteq> ''completed''
       \<and> (status s = ''active'' \<longrightarrow> candidate_id s \<noteq> None \<and> hr_id s \<noteq> None)
       \<and> ([] \<notin> set (join_ids reqs) \<longrightarrow>
            (status s = ''active'' \<longleftrightarrow> candidate_id s \<noteq> None \<and> hr_id s \<noteq> None))"
proof -
  have mem: "s \<in> set (interview_sessions (serve_all w reqs))"
    using assms(2) find_one_Some by (fastforce simp: get_session_def split: option.splits)
  have "\<forall>s \<in> set (interview_sessions (serve_all w reqs)). session_ok False s"
    using assms(1) by (intro serve_all_ok) simp_all
  with mem have a: "session_ok False s" by blast
  have b: "[] \<notin> set (join_ids reqs) \<longrightarrow> session_ok True s"
  proof
    assume "[] \<notin> set (join_ids reqs)"
    then have "\<forall>s \<in> set (interview_sessions (serve_all w reqs)). session_ok True s"
      using assms(1) by (intro serve_all_ok) simp_all
    with mem show "session_ok True s" by blast
  qed
  from a have 1: "(status s = ''active'' \<or> status s = ''waiting'') \<and> status s \<noteq> ''completed''
       \<and> (status s = ''active'' \<longrightarrow> candidate_id s \<noteq> None \<and> hr_id s \<noteq> None)"
    by (auto simp: session_ok_def)
  have 2: "[] \<notin> set (join_ids reqs) \<longrightarrow>
            (status s = ''active'' \<longleftrightarrow> candidate_id s \<noteq> None \<and> hr_id s \<noteq> None)"
  proof
    assume "[] \<notin> set (join_ids reqs)"
    with b have "session_ok True s" by blast
    then show "status s = ''active'' \<longleftrightarrow> candidate_id s \<noteq> None \<and> hr_id s \<noteq> None"
      by (cases "candidate_id s"; cases "hr_id s") (auto simp: session_ok_def)
  qed
  from 1 2 show ?thesis by blast
qed

theorem session_status_invariant_witness:
  "get_session (serve_all world0
          [CreateSession ''s1'' ''ASL'' 0, JoinSession ''s1'' ''c'' ''candidate'',
           JoinSession ''s1'' ''h'' ''hr'']) ''s1''
     = Inr \<lparr>session_id = ''s1'', candidate_id = Some ''c'', hr_id = Some ''h'',
             status = ''active'', sign_language = ''ASL'', created_at = 0, messages = []\<rparr>
   \<and> [] \<notin> set (join_ids [CreateSession ''s1'' ''ASL'' 0, JoinSession ''s1'' ''c'' ''candidate'',
           JoinSession ''s1'' ''h'' ''hr''])
   \<and> interview_sessions world0 = []"
proof -
  have e: "interview_sessions world0 = []" by (simp add: world0_def)
  have r: "get_session (serve_all world0
          [CreateSession ''s1'' ''ASL'' 0, JoinSession ''s1'' ''c'' ''candidate'',
           JoinSession ''s1'' ''h'' ''hr'']) ''s1''
     = Inr \<lparr>session_id = ''s1'', candidate_id = Some ''c'', hr_id = Some ''h'',
             status = ''active'', sign_language = ''ASL'', created_at = 0, messages = []\<rparr>"
    by (simp add: serve_all_def world0_def create_session_def join_session_def get_session_def
        insert_one_def by_session_id_def by_user_id_def set_fields_def Let_def)
  show ?thesis using session_status_invariant [OF e r] e r by simp
qed

text \<open>
  C1 as stated fails: \<^verbatim>\<open>join_session\<close> tests the truth value of the other identity, and
  the empty string is false. After a candidate joins with the identity \<^verbatim>\<open>""\<close> and an
  interviewer joins, both identities are non-null and the status is still \<^verbatim>\<open>waiting\<close>.
\<close>

theorem session_status_counterexample:
  "get_session (serve_all world0
          [CreateSession ''s1'' ''ASL'' 0, JoinSession ''s1'' [] ''candidate'',
           JoinSession ''s1'' ''h'' ''hr'']) ''s1''
     = Inr \<lparr>session_id = ''s1'', candidate_id = Some [], hr_id = Some ''h'',
             status = ''waiting'', sign_language = ''ASL'', created_at = 0, messages = []\<rparr>"
  by (simp add: serve_all_def world0_def create_session_def join_session_def get_session_def
        insert_one_def by_session_id_def by_user_id_def set_fields_def Let_def)

section \<open>Persisted messages\<close>

lemma message_fields_dict: "message_fields (Message_dict m) = sent_fields m"
  by (simp add: message_fields_def sent_fields_def Message_dict_def get_def)

lemma by_session_id_set_fields: "by_session_id v (set_fields ud s) = by_session_id v s"
  by (simp add: by_session_id_def set_fields_keeps)

lemma by_session_id_push: "by_session_id v (push_message d s) = by_session_id v s"
  by (simp add: by_session_id_def push_message_def)

lemma find_one_update_session:
  assumes keep: "\<And>v x. by_session_id v (f x) = by_session_id v x"
  shows "find_one (update_one xs (by_session_id (PStr sid')) f) (by_session_id (PStr sid))
         = (if sid' = sid then map_option f (find_one xs (by_session_id (PStr sid)))
            else find_one xs (by_session_id (PStr sid)))"
proof (cases "sid' = sid")
  case True
  then show ?thesis using keep by (simp add: find_one_update_same)
next
  case False
  have "find_one (update_one xs (by_session_id (PStr sid')) f) (by_session_id (PStr sid))
        = find_one xs (by_session_id (PStr sid))"
  proof (rule find_one_update_other)
    fix x assume "by_session_id (PStr sid') x"
    with False show "\<not> by_session_id (PStr sid) x \<and> \<not> by_session_id (PStr sid) (f x)"
      by (auto simp: keep) (auto simp: by_session_id_def)
  qed
  with False show ?thesis by simp
qed

lemma serve_messages:
  assumes "find_one (interview_sessions w) (by_session_id (PStr sid)) = Some s"
  shows "\<exists>s'. find_one (interview_sessions (serve w r)) (by_session_id (PStr sid)) = Some s'
            \<and> messages s' = messages s @ map Message_dict (posted sid [r])"
proof (cases r)
  case (CreateSession new_uuid language now)
  with assms show ?thesis
    by (simp add: create_session_def insert_one_def Let_def find_one_append)
next
  case (JoinSession sid' uid rl)
  show ?thesis
  proof (cases "find_one (interview_sessions w) (by_session_id (PStr sid'))")
    case None
    with assms JoinSession show ?thesis by (simp add: join_session_db)
  next
    case (Some session)
    with assms JoinSession show ?thesis
      by (simp add: join_session_db find_one_update_session by_session_id_set_fields set_fields_keeps)
  qed
next
  case (SendMessage sid' message)
  with assms show ?thesis
    by (simp add: send_message_db find_one_update_session by_session_id_push)
       (simp add: push_message_def)
qed

lemma serve_all_messages:
  "find_one (interview_sessions w) (by_session_id (PStr sid)) = Some s \<Longrightarrow>
   \<exists>s'. find_one (interview_sessions (serve_all w reqs)) (by_session_id (PStr sid)) = Some s'
            \<and> messages s' = messages s @ map Message_dict (posted sid reqs)"
proof (induction reqs arbitrary: w s)
  case Nil
  then show ?case by (simp add: serve_all_def)
next
  case (Cons r reqs)
  from serve_messages [OF Cons.prems, of r] obtain s1 where
    s1: "find_one (interview_sessions (serve w r)) (by_session_id (PStr sid)) = Some s1"
    and m1: "messages s1 = messages s @ map Message_dict (posted sid [r])"
    by blast
  from Cons.IH [OF s1] obtain s' where
    s': "find_one (interview_sessions (serve_all (serve w r) reqs)) (by_session_id (PStr sid)) = Some s'"
    and m': "messages s' = messages s1 @ map Message_dict (posted sid reqs)"
    by blast
  have "posted sid (r # reqs) = posted sid [r] @ posted sid reqs"
    by (cases r) auto
  with s' m' m1 show ?case by (simp add: serve_all_def)
qed

text \<open>
  C2. For a session that a read finds, after any sequence of create, join and message
  requests a read of the session succeeds and returns the messages it held before,
  followed by the messages posted to it in the order of the requests, each stored as
  the dictionary of the message, so with the same content, sender identity and message
  type. No request reorders or removes a stored message.
\<close>

theorem persisted_messages_round_trip:
  assumes "get_session w sid = Inr s"
  shows "\<exists>s'. get_session (serve_all w reqs) sid = Inr s'
            \<and> messages s' = messages s @ map Message_dict (posted sid reqs)
            \<and> map message_fields (messages s')
                = map message_fields (messages s) @ map sent_fields (posted sid reqs)"
proof -
  from assms have "find_one (interview_sessions w) (by_session_id (PStr sid)) = Some s"
    by (simp add: get_session_def split: option.splits)
  from serve_all_messages [OF this, of reqs] obtain s' where
    "find_one (interview_sessions (serve_all w reqs)) (by_session_id (PStr sid)) = Some s'"
    and m: "messages s' = messages s @ map Message_dict (posted sid reqs)"
    by blast
  then have "get_session (serve_all w reqs) sid = Inr s'"
    by (simp add: get_session_def)
  moreover have "map message_fields (messages s')
                = map message_fields (messages s) @ map sent_fields (posted sid reqs)"
    using m by (simp add: message_fields_dict)
  ultimately show ?thesis using m by blast
qed

theorem persisted_messages_round_trip_witness:
  "get_session (serve_all world0 [CreateSession ''s1'' ''ASL'' 0]) ''s1''
     = Inr \<lparr>session_id = ''s1'', candidate_id = None, hr_id = None,
             status = ''waiting'', sign_language = ''ASL'', created_at = 0, messages = []\<rparr>
   \<and> (\<exists>s'. get_session (serve_all (serve_all world0 [CreateSession ''s1'' ''ASL'' 0])
                [SendMessage ''s1'' message1, JoinSession ''s1'' ''c'' ''candidate'',
                 SendMessage ''s2'' message2, SendMessage ''s1'' message2]) ''s1'' = Inr s'
          \<and> messages s' = [Message_dict message1, Message_dict message2]
          \<and> map message_fields (messages s')
              = [(PStr ''hello'', PStr ''c'', PStr ''sign_to_text''),
                 (PStr ''welcome'', PStr ''h'', PStr ''text_to_sign'')])"
proof -
  have r: "get_session (serve_all world0 [CreateSession ''s1'' ''ASL'' 0]) ''s1''
     = Inr \<lparr>session_id = ''s1'', candidate_id = None, hr_id = None,
             status = ''waiting'', sign_language = ''ASL'', created_at = 0, messages = []\<rparr>"
    by (simp add: serve_all_def world0_def create_session_def get_session_def
        insert_one_def by_session_id_def Let_def)
  show ?thesis
    using r persisted_messages_round_trip [OF r, of
        "[SendMessage ''s1'' message1, JoinSession ''s1'' ''c'' ''candidate'',
          SendMessage ''s2'' message2, SendMessage ''s1'' message2]"]
    by (simp add: sent_fields_def message1_def message2_def)
qed

section \<open>The live channel and the fan-out\<close>

lemma send_personal_message_keeps:
  "send_personal_message w d p = (r, w') \<Longrightarrow>
     interview_sessions w' = interview_sessions w \<and> active_connections w' = active_connections w
     \<and> client_state w' = client_state w \<and> send_raises w' = send_raises w
     \<and> foreign_query w' = foreign_query w"
  by (auto simp: send_personal_message_def dest: send_text_keeps split: option.splits if_splits)




lemma send_participants_dropped:
  "\<forall>p \<in> set ps. truthy_id p \<longrightarrow> (\<forall>c. active_connections w (the p) = Some c \<longrightarrow> client_state w c \<noteq> CONNECTED)
   \<Longrightarrow> send_participants w m ps = (Inr (), w)"
  by (induction ps) auto




text \<open>
  C4 fails on the code. The registry entry is removed in the clause
  \<^verbatim>\<open>except WebSocketDisconnect\<close> only. An endpoint that ends with another exception,
  here \<^verbatim>\<open>JSONDecodeError\<close> on a text that is not JSON, leaves the entry of its identity
  in the registry; one that ends with \<^verbatim>\<open>WebSocketDisconnect\<close> removes it.
\<close>

theorem stale_entry_after_crash:
  "websocket_endpoint world0 1 ''u'' [NotJson]
     = (Raised JSONDecodeError, connect world0 1 ''u'')
   \<and> active_connections (snd (websocket_endpoint world0 1 ''u'' [NotJson])) ''u'' = Some 1
   \<and> active_connections (snd (websocket_endpoint world0 1 ''u'' [Disconnect])) ''u'' = None"
  by (simp add: websocket_endpoint_def receive_one_def leave_def connect_def disconnect_def
        world0_def)

text \<open>What the \<^verbatim>\<open>except\<close> clause achieves: an endpoint that returns has unregistered.\<close>

lemma leave_returned: "leave w uid e = (Returned, w') \<Longrightarrow> active_connections w' uid = None"
  by (auto simp: leave_def disconnect_def split: if_splits)

lemma receive_one_returned:
  "receive_one w websocket uid ev = (Returned, w') \<Longrightarrow> active_connections w' uid = None"
  by (cases ev)
     (auto simp: receive_one_def Let_def dest: leave_returned
           split: if_splits sum.splits prod.splits)

lemma receive_loop_returned:
  "receive_loop w websocket uid evs = (Returned, w') \<Longrightarrow> active_connections w' uid = None"
proof (induction evs arbitrary: w)
  case Nil
  then show ?case by simp
next
  case (Cons ev evs)
  obtain st w1 where one: "receive_one w websocket uid ev = (st, w1)"
    by (cases "receive_one w websocket uid ev")
  show ?case
  proof (cases st)
    case Receiving
    with one Cons.prems have "receive_loop w1 websocket uid evs = (Returned, w')" by simp
    then show ?thesis by (rule Cons.IH)
  next
    case Returned
    with one Cons.prems have "w1 = w'" by simp
    with one Returned show ?thesis using receive_one_returned by blast
  next
    case (Raised e)
    with one Cons.prems show ?thesis by simp
  qed
qed

text \<open>
  C5, as the code has it. An envelope (a text that decodes to a JSON object) is ignored
  when its discriminator is neither \<^verbatim>\<open>ping\<close> nor \<^verbatim>\<open>message\<close>, when it is a
  \<^verbatim>\<open>message\<close> whose session identity is missing or false, and when it is a \<^verbatim>\<open>message\<close>
  whose lookup returns and none of whose resolved participants has a registered
  channel that reads \<^verbatim>\<open>CONNECTED\<close>: nothing is sent, the state is unchanged, and the
  loop goes on with the frames that follow.
\<close>

theorem harmless_envelopes_ignored:
  assumes "(get env ''type'' \<noteq> PStr ''ping'' \<and> get env ''type'' \<noteq> PStr ''message'')
         \<or> (get env ''type'' = PStr ''message'' \<and> \<not> truthy (get env ''session_id''))
         \<or> (get env ''type'' = PStr ''message''
              \<and> (\<exists>found. find_session w (get env ''session_id'') = Inr found)
              \<and> (\<forall>p \<in> set (participants_of w (get env ''session_id'')).
                    \<forall>c. active_connections w p = Some c \<longrightarrow> client_state w c \<noteq> CONNECTED))"
  shows "receive_one w websocket uid (Envelope env) = (Receiving, w)
       \<and> receive_loop w websocket uid (Envelope env # evs) = receive_loop w websocket uid evs"
proof -
  have one: "receive_one w websocket uid (Envelope env) = (Receiving, w)"
    using assms
  proof (elim disjE conjE exE)
    assume "get env ''type'' \<noteq> PStr ''ping''" "get env ''type'' \<noteq> PStr ''message''"
    then show ?thesis by (simp add: receive_one_def)
  next
    assume "get env ''type'' = PStr ''message''" "\<not> truthy (get env ''session_id'')"
    then show ?thesis by (simp add: receive_one_def)
  next
    let ?sid = "get env ''session_id''"
    fix found
    assume t: "get env ''type'' = PStr ''message''"
      and f: "find_session w ?sid = Inr found"
      and d: "\<forall>p \<in> set (participants_of w ?sid).
                \<forall>c. active_connections w p = Some c \<longrightarrow> client_state w c \<noteq> CONNECTED"
    have "send_to_session w env ?sid = (Inr (), w)"
    proof (cases found)
      case None
      with f show ?thesis by (simp add: send_to_session_def)
    next
      case (Some session)
      with d f have "\<forall>p \<in> set [candidate_id session, hr_id session]. truthy_id p \<longrightarrow>
              (\<forall>c. active_connections w (the p) = Some c \<longrightarrow> client_state w c \<noteq> CONNECTED)"
        by (auto simp: participants_of_def split: if_splits)
      then have "send_participants w env [candidate_id session, hr_id session] = (Inr (), w)"
        by (rule send_participants_dropped)
      with Some f show ?thesis by (simp add: send_to_session_def del: send_participants.simps)
    qed
    with t show ?thesis by (simp add: receive_one_def Let_def)
  qed
  then show ?thesis by simp
qed

theorem harmless_envelopes_ignored_witness:
  "get [(''type'', PStr ''bogus'')] ''type'' \<noteq> PStr ''ping''
   \<and> get [(''type'', PStr ''bogus'')] ''type'' \<noteq> PStr ''message''
   \<and> receive_loop world1 1 ''c'' [Envelope [(''type'', PStr ''bogus'')], Envelope [(''type'', PStr ''ping'')]]
       = receive_loop world1 1 ''c'' [Envelope [(''type'', PStr ''ping'')]]
   \<and> \<not> truthy (get [(''type'', PStr ''message''), (''session_id'', PStr [])] ''session_id'')
   \<and> receive_one world1 1 ''c'' (Envelope [(''type'', PStr ''message''), (''session_id'', PStr [])])
       = (Receiving, world1)
   \<and> participants_of world2 (get envelope1 ''session_id'') = [''c'', ''h'']
   \<and> active_connections world2 ''c'' = None
   \<and> active_connections world2 ''h'' = Some 2 \<and> client_state world2 2 = DISCONNECTED
   \<and> receive_one world2 1 ''c'' (Envelope envelope1) = (Receiving, world2)"
proof -
  have a1: "get [(''type'', PStr ''bogus'')] ''type'' \<noteq> PStr ''ping''
      \<and> get [(''type'', PStr ''bogus'')] ''type'' \<noteq> PStr ''message''"
    by (simp add: get_def)
  from harmless_envelopes_ignored [of "[(''type'', PStr ''bogus'')]" world1 1 "''c''"
      "[Envelope [(''type'', PStr ''ping'')]]"] a1
  have r1: "receive_loop world1 1 ''c'' [Envelope [(''type'', PStr ''bogus'')], Envelope [(''type'', PStr ''ping'')]]
       = receive_loop world1 1 ''c'' [Envelope [(''type'', PStr ''ping'')]]"
    by blast
  have a2: "get [(''type'', PStr ''message''), (''session_id'', PStr [])] ''type'' = PStr ''message''
      \<and> \<not> truthy (get [(''type'', PStr ''message''), (''session_id'', PStr [])] ''session_id'')"
    by (simp add: get_def)
  from harmless_envelopes_ignored [of "[(''type'', PStr ''message''), (''session_id'', PStr [])]"
      world1 1 "''c''" "[]"] a2
  have r2: "receive_one world1 1 ''c'' (Envelope [(''type'', PStr ''message''), (''session_id'', PStr [])])
       = (Receiving, world1)"
    by blast
  have t3: "get envelope1 ''type'' = PStr ''message''" by (simp add: envelope1_def get_def)
  have f3: "\<exists>found. find_session world2 (get envelope1 ''session_id'') = Inr found"
    by (simp add: envelope1_def get_def find_session_def)
  have p3: "participants_of world2 (get envelope1 ''session_id'') = [''c'', ''h'']"
    by (simp add: envelope1_def get_def participants_of_def find_session_def world2_def world1_def
          by_session_id_def)
  have c3: "active_connections world2 ''c'' = None
      \<and> active_connections world2 ''h'' = Some 2 \<and> client_state world2 2 = DISCONNECTED"
    by (simp add: world2_def world1_def)
  then have a3: "\<forall>p \<in> set (participants_of world2 (get envelope1 ''session_id'')).
      \<forall>c. active_connections world2 p = Some c \<longrightarrow> client_state world2 c \<noteq> CONNECTED"
    by (simp add: p3)
  from harmless_envelopes_ignored [of envelope1 world2 1 "''c''" "[]"] t3 f3 a3
  have r3: "receive_one world2 1 ''c'' (Envelope envelope1) = (Receiving, world2)"
    by blast
  from a1 r1 a2 r2 p3 c3 r3 show ?thesis by blast
qed

text \<open>
  C5 as stated fails for a malformed frame: \<^verbatim>\<open>json.loads\<close> raises, no clause catches
  the exception, and the endpoint ends. A ping that follows is never answered, while
  the same ping alone is.
\<close>

theorem malformed_frame_counterexample:
  "receive_loop world1 1 ''c'' [NotJson, Envelope [(''type'', PStr ''ping'')]]
     = (Raised JSONDecodeError, world1)
   \<and> receive_loop world1 1 ''c'' [Envelope [(''type'', PStr ''ping'')]]
     = (Receiving, world1\<lparr>sent := [(1, Json [(''type'', PStr ''pong'')])]\<rparr>)"
  by (simp add: receive_one_def leave_def get_def json_dumps_def send_text_def world1_def)

text \<open>
  C8. An envelope with discriminator \<^verbatim>\<open>ping\<close> on a connected channel, one on which a
  send is delivered, makes the endpoint send exactly one \<^verbatim>\<open>pong\<close> on its own channel;
  the database, the registry and the channel states are as before, and the endpoint
  goes on receiving. On a channel whose connection is gone the send raises and the
  endpoint ends as it does on every exception.
\<close>

theorem ping_pong:
  assumes "get env ''type'' = PStr ''ping''"
  shows "(send_raises w websocket = None \<longrightarrow>
            receive_one w websocket uid (Envelope env)
              = (Receiving, w\<lparr>sent := sent w @ [(websocket, Json [(''type'', PStr ''pong'')])]\<rparr>))
       \<and> (send_raises w websocket = Some e \<longrightarrow>
            receive_one w websocket uid (Envelope env) = leave w uid e)"
  using assms by (simp add: receive_one_def json_dumps_def send_text_def)

theorem ping_pong_witness:
  "get [(''type'', PStr ''ping''), (''session_id'', PStr ''s1'')] ''type'' = PStr ''ping''
   \<and> send_raises world1 1 = None
   \<and> receive_one world1 1 ''c'' (Envelope [(''type'', PStr ''ping''), (''session_id'', PStr ''s1'')])
       = (Receiving, world1\<lparr>sent := sent world1 @ [(1, Json [(''type'', PStr ''pong'')])]\<rparr>)
   \<and> send_raises world3 1 = Some WebSocketDisconnect
   \<and> receive_one world3 1 ''c'' (Envelope [(''type'', PStr ''ping''), (''session_id'', PStr ''s1'')])
       = leave world3 ''c'' WebSocketDisconnect"
proof -
  have t: "get [(''type'', PStr ''ping''), (''session_id'', PStr ''s1'')] ''type'' = PStr ''ping''"
    by (simp add: get_def)
  have ok: "send_raises world1 1 = None" by (simp add: world1_def)
  have gone: "send_raises world3 1 = Some WebSocketDisconnect" by (simp add: world3_def)
  from t ok gone ping_pong [OF t, of world1 1 "''c''" WebSocketDisconnect]
    ping_pong [OF t, of world3 1 "''c''" WebSocketDisconnect]
  show ?thesis by blast
qed

text \<open>
  C6. For a session identity that matches no stored session, no participant is resolved
  and the fan-out returns without an error, having sent nothing and changed nothing.
\<close>

theorem vanished_session_fan_out:
  assumes "find_session w sid = Inr None"
  shows "participants_of w sid = [] \<and> send_to_session w message sid = (Inr (), w)"
  using assms by (simp add: participants_of_def send_to_session_def)

theorem vanished_session_fan_out_witness:
  "find_session world1 (PStr ''gone'') = Inr None
   \<and> participants_of world1 (PStr ''gone'') = []
   \<and> send_to_session world1 envelope1 (PStr ''gone'') = (Inr (), world1)"
proof -
  have n: "find_session world1 (PStr ''gone'') = Inr None"
    by (simp add: find_session_def world1_def by_session_id_def)
  from n vanished_session_fan_out [OF n, of envelope1] show ?thesis by blast
qed

text \<open>
  C7. A registry send to an identity that has no entry, or whose channel is not in the
  state \<^verbatim>\<open>CONNECTED\<close>, sends nothing, raises nothing and leaves the state as it is.
  The copy of the send inside the fan-out loop does the same and returns without an
  error, whatever the message, so the request that fans out is not failed.
\<close>

theorem send_dropped:
  assumes "active_connections w uid = None
         \<or> (\<exists>c. active_connections w uid = Some c \<and> client_state w c \<noteq> CONNECTED)"
  shows "send_personal_message w message uid = (Inr (), w)
       \<and> send_participants w message_dict [Some uid] = (Inr (), w)"
  using assms by (auto simp: send_personal_message_def)

theorem send_dropped_witness:
  "active_connections world1 ''nobody'' = None
   \<and> send_personal_message world1 (Raw ''hello'') ''nobody'' = (Inr (), world1)
   \<and> active_connections world1 ''h'' = Some 2 \<and> client_state world1 2 \<noteq> CONNECTED
   \<and> send_personal_message world1 (Raw ''hello'') ''h'' = (Inr (), world1)"
proof -
  have a: "active_connections world1 ''nobody'' = None" by (simp add: world1_def)
  have b: "active_connections world1 ''h'' = Some 2 \<and> client_state world1 2 \<noteq> CONNECTED"
    by (simp add: world1_def)
  from a send_dropped [of world1 "''nobody''" "Raw ''hello''" envelope1]
  have ra: "send_personal_message world1 (Raw ''hello'') ''nobody'' = (Inr (), world1)" by blast
  from b send_dropped [of world1 "''h''" "Raw ''hello''" envelope1]
  have rb: "send_personal_message world1 (Raw ''hello'') ''h'' = (Inr (), world1)" by blast
  from a b ra rb show ?thesis by blast
qed

text \<open>
  C10. Posting a message to a session identity that a read reports as not found does
  not signal not-found: it returns the success acknowledgment, sends nothing and
  leaves the state, so every stored message sequence, unchanged. The acknowledgment
  is the one that every successful post returns.
\<close>

theorem send_message_unknown_session:
  assumes "get_session w sid = Inl (HTTPException 404 ''Session not found'')"
  shows "send_message w sid message = (Inr ''Message sent successfully'', w)
       \<and> (fst (send_message w' sid' message') = Inr ack \<longrightarrow> ack = ''Message sent successfully'')"
proof -
  from assms have n: "find_one (interview_sessions w) (by_session_id (PStr sid)) = None"
    by (simp add: get_session_def split: option.splits)
  then have "send_message w sid message = (Inr ''Message sent successfully'', w)"
    by (simp add: send_message_def Let_def update_one_no_match send_to_session_def find_session_def)
  moreover have "fst (send_message w' sid' message') = Inr ack \<longrightarrow> ack = ''Message sent successfully''"
    by (auto simp: send_message_def Let_def split: prod.splits sum.splits)
  ultimately show ?thesis by blast
qed

theorem send_message_unknown_session_witness:
  "get_session world1 ''gone'' = Inl (HTTPException 404 ''Session not found'')
   \<and> send_message world1 ''gone'' message1 = (Inr ''Message sent successfully'', world1)
   \<and> get_session world2 ''s1'' \<noteq> Inl (HTTPException 404 ''Session not found'')
   \<and> fst (send_message world2 ''s1'' message1) = Inr ''Message sent successfully''"
proof -
  have n: "get_session world1 ''gone'' = Inl (HTTPException 404 ''Session not found'')"
    by (simp add: get_session_def world1_def by_session_id_def)
  have e: "get_session world2 ''s1'' \<noteq> Inl (HTTPException 404 ''Session not found'')"
    by (simp add: get_session_def world2_def world1_def by_session_id_def)
  have a: "fst (send_message world2 ''s1'' message1) = Inr ''Message sent successfully''"
    by (simp add: send_message_def send_to_session_def find_session_def world2_def world1_def
          by_session_id_def push_message_def Let_def)
  from n e a send_message_unknown_session [OF n, of message1 world2 "''s1''" message1
      "''Message sent successfully''"]
  show ?thesis by blast
qed

end
